theory Spec2Isabelle
  imports Complex_Main "HOL-Library.Word"
begin

section \<open>Data model of \<^verbatim>\<open>esp32_main_controller.cpp\<close>\<close>

text \<open>
  The two enumerations of the controller, in the order of their declaration (the C++
  ordinal of a constant is its position in the list).
\<close>

datatype SystemState = STATE_STANDBY | STATE_ALERT | STATE_ACTIVE | STATE_EMERGENCY

datatype ThreatLevel = THREAT_NONE | THREAT_LOW | THREAT_MEDIUM | THREAT_HIGH

text \<open>The ordinal of a threat level, as the C++ enum numbers it.\<close>

fun threatOrdinal :: "ThreatLevel \<Rightarrow> nat" where
  "threatOrdinal THREAT_NONE = 0"
| "threatOrdinal THREAT_LOW = 1"
| "threatOrdinal THREAT_MEDIUM = 2"
| "threatOrdinal THREAT_HIGH = 3"

text \<open>
  \<^verbatim>\<open>unsigned long\<close> is 32 bits wide on the ESP32: \<^verbatim>\<open>millis()\<close> and every time stamp
  are 32-bit words, and their subtraction wraps around.
\<close>

type_synonym ulong = "32 word"

text \<open>
  A C++ \<^verbatim>\<open>float\<close> holds a finite number, an infinity or a NaN. A finite value is
  modelled by the real number it denotes; the comparisons follow IEEE 754: every
  comparison with a NaN is false.
\<close>

datatype cfloat = Finite real | PlusInf | MinusInf | NaN

definition float_lt :: "cfloat \<Rightarrow> cfloat \<Rightarrow> bool" where
  "float_lt x y =
     (case x of
        NaN \<Rightarrow> False
      | PlusInf \<Rightarrow> False
      | MinusInf \<Rightarrow> (case y of Finite b \<Rightarrow> True | PlusInf \<Rightarrow> True | MinusInf \<Rightarrow> False | NaN \<Rightarrow> False)
      | Finite a \<Rightarrow> (case y of Finite b \<Rightarrow> a < b | PlusInf \<Rightarrow> True | MinusInf \<Rightarrow> False | NaN \<Rightarrow> False))"

definition float_le :: "cfloat \<Rightarrow> cfloat \<Rightarrow> bool" where
  "float_le x y =
     (case x of
        NaN \<Rightarrow> False
      | PlusInf \<Rightarrow> (case y of Finite b \<Rightarrow> False | PlusInf \<Rightarrow> True | MinusInf \<Rightarrow> False | NaN \<Rightarrow> False)
      | MinusInf \<Rightarrow> (case y of Finite b \<Rightarrow> True | PlusInf \<Rightarrow> True | MinusInf \<Rightarrow> True | NaN \<Rightarrow> False)
      | Finite a \<Rightarrow> (case y of Finite b \<Rightarrow> a \<le> b | PlusInf \<Rightarrow> True | MinusInf \<Rightarrow> False | NaN \<Rightarrow> False))"

text \<open>
  Division of C++ \<^verbatim>\<open>int\<close>s truncates towards zero, and so does the conversion of a
  floating-point value to \<^verbatim>\<open>int\<close>.
\<close>

definition c_div :: "int \<Rightarrow> int \<Rightarrow> int" where
  "c_div a b = sgn a * sgn b * (\<bar>a\<bar> div \<bar>b\<bar>)"

definition c_trunc :: "real \<Rightarrow> int" where
  "c_trunc x = (if 0 \<le> x then \<lfloor>x\<rfloor> else \<lceil>x\<rceil>)"

text \<open>The range of a 32-bit \<^verbatim>\<open>int\<close>.\<close>

definition int32 :: "int \<Rightarrow> bool" where
  "int32 x = (- (2 ^ 31) \<le> x \<and> x < 2 ^ 31)"

text \<open>\<^verbatim>\<open>struct BirdDetection\<close>, the detection data received from the Raspberry Pi.\<close>

record BirdDetection =
  detected :: bool
  confidence :: int
  distance :: cfloat
  bearing :: cfloat
  species :: int
  timestamp :: ulong

text \<open>
  The global variables that the threat assessment, the state machine and the deterrent
  control read or assign, and the outputs they drive: the duty written to the four strobe
  PWM channels, the level of the \<^verbatim>\<open>AUDIO_ENABLE\<close> pin and the tone of channel 4.
  The globals \<^verbatim>\<open>sensors\<close>, \<^verbatim>\<open>powerStatus\<close>, \<^verbatim>\<open>lastSensorUpdate\<close>,
  \<^verbatim>\<open>lastTelemetryTime\<close> and the static \<^verbatim>\<open>lastHealthCheck\<close> are assigned only by
  \<^verbatim>\<open>updateSensorData\<close>, \<^verbatim>\<open>monitorPowerSystems\<close>, \<^verbatim>\<open>performHealthCheck\<close> and the two
  timing gates of \<^verbatim>\<open>loop\<close>, which assign nothing else, and none of the functions below
  reads them; they are left out of the record.
\<close>

record Controller =
  currentState :: SystemState
  currentThreat :: ThreatLevel
  deterrentActivationTime :: ulong
  emergencyStop :: bool
  birdData :: BirdDetection
  ledc0 :: int
  ledc1 :: int
  ledc2 :: int
  ledc3 :: int
  audioEnable :: bool
  audioTone :: int

subsection \<open>What one iteration of \<^verbatim>\<open>loop\<close> reads from outside\<close>

datatype PinLevel = LOW | HIGH

text \<open>
  The codes of ArduinoJson's \<^verbatim>\<open>DeserializationError\<close>; \<^verbatim>\<open>!error\<close> holds for \<open>Ok\<close> only.
\<close>

datatype DeserializationError = Ok | EmptyInput | IncompleteInput | InvalidInput | NoMemory | TooDeep

text \<open>
  The values that the conversions \<^verbatim>\<open>doc["detected"]\<close>, \<^verbatim>\<open>doc["confidence"]\<close>,
  \<^verbatim>\<open>doc["distance"]\<close>, \<^verbatim>\<open>doc["bearing"]\<close> and \<^verbatim>\<open>doc["species"]\<close> of the parsed
  document yield.
\<close>

record JsonDoc =
  doc_detected :: bool
  doc_confidence :: int
  doc_distance :: cfloat
  doc_bearing :: cfloat
  doc_species :: int

text \<open>
  One iteration reads the emergency-stop pin, at most one line from the Raspberry Pi
  (\<open>None\<close> when \<^verbatim>\<open>rpiSerial.available()\<close> is zero, otherwise the result of
  \<^verbatim>\<open>deserializeJson\<close> on the line), and the clock: each call of \<^verbatim>\<open>millis()\<close> is a
  reading of its own.
\<close>

record TickInput =
  emergencyPin :: PinLevel
  rpiLine :: "(DeserializationError \<times> JsonDoc) option"
  millisDetection :: ulong
  millisUpdate :: ulong
  millisStrobes :: ulong
  millisAudio :: ulong
  millisControl :: ulong

section \<open>Threat assessment\<close>

text \<open>The value of the local variable \<^verbatim>\<open>threatScore\<close> when the three factors are added.\<close>

definition threatScore :: "BirdDetection \<Rightarrow> int" where
  "threatScore b =
     (let score0 = 0;
          score1 = (if float_lt (distance b) (Finite 50) then score0 + 30
                    else if float_lt (distance b) (Finite 100) then score0 + 20
                    else if float_lt (distance b) (Finite 200) then score0 + 10
                    else score0);
          score2 = score1 + c_div (confidence b) 10;
          score3 = (if species b = 1 then score2 + 20
                    else if species b = 2 then score2 + 15
                    else if species b = 3 then score2 + 10
                    else score2)
      in score3)"

definition assessThreatLevel :: "Controller \<Rightarrow> Controller" where
  "assessThreatLevel s =
     (if \<not> detected (birdData s) then s\<lparr>currentThreat := THREAT_NONE\<rparr>
      else
        (let score = threatScore (birdData s) in
         if score \<ge> 50 then s\<lparr>currentThreat := THREAT_HIGH\<rparr>
         else if score \<ge> 30 then s\<lparr>currentThreat := THREAT_MEDIUM\<rparr>
         else if score \<ge> 15 then s\<lparr>currentThreat := THREAT_LOW\<rparr>
         else s\<lparr>currentThreat := THREAT_NONE\<rparr>))"

section \<open>Detection polling\<close>

definition checkBirdDetection :: "(DeserializationError \<times> JsonDoc) option \<Rightarrow> ulong \<Rightarrow> Controller \<Rightarrow> Controller" where
  "checkBirdDetection line now s =
     (case line of
        None \<Rightarrow> s
      | Some (error, doc) \<Rightarrow>
          (if error = Ok then
             assessThreatLevel
               (s\<lparr>birdData :=
                    \<lparr>detected = doc_detected doc,
                     confidence = doc_confidence doc,
                     distance = doc_distance doc,
                     bearing = doc_bearing doc,
                     species = doc_species doc,
                     timestamp = now\<rparr>\<rparr>)
           else s))"

section \<open>State machine\<close>

definition updateSystemState :: "ulong \<Rightarrow> Controller \<Rightarrow> Controller" where
  "updateSystemState now s =
     (if emergencyStop s then s\<lparr>currentState := STATE_EMERGENCY\<rparr>
      else
        (case currentThreat s of
           THREAT_NONE \<Rightarrow> s\<lparr>currentState := STATE_STANDBY\<rparr>
         | THREAT_LOW \<Rightarrow> s\<lparr>currentState := STATE_ALERT\<rparr>
         | THREAT_MEDIUM \<Rightarrow> s\<lparr>currentState := STATE_ACTIVE, deterrentActivationTime := now\<rparr>
         | THREAT_HIGH \<Rightarrow> s\<lparr>currentState := STATE_ACTIVE, deterrentActivationTime := now\<rparr>))"

section \<open>Deterrent control\<close>

text \<open>
  The strobe pattern and the tone are computed in floating point: the angle is stored in
  a 32-bit \<^verbatim>\<open>float\<close>, the sine and the products are those of the platform. The
  definitions below are the pattern in the real numbers (\<open>sin\<close> and \<open>pi\<close> exact, no
  rounding of the intermediate values), converted to \<^verbatim>\<open>int\<close> as C++ does, by
  truncation. They agree with the program wherever the floating-point values are exact,
  in particular at intensity 0, where every product is 0. Where the exact value is an
  integer the program can write the integer below it: half a period after its start, at
  intensity 50, the exact value of the first channel is 25, and the program, whose angle
  is the \<^verbatim>\<open>float\<close> next to \<open>pi\<close> and above it, writes 24. Nothing below relies on the
  value of a channel at an intensity other than 0.
\<close>

definition timeRad :: "ulong \<Rightarrow> real" where
  "timeRad time = real (unat time mod 1000) * 2 * pi / 1000"

definition strobePhase :: "int \<Rightarrow> real \<Rightarrow> int" where
  "strobePhase intensity angle = c_trunc ((sin angle + 1) * real_of_int intensity / 2)"

definition setLEDStrobes :: "int \<Rightarrow> ulong \<Rightarrow> Controller \<Rightarrow> Controller" where
  "setLEDStrobes intensity time s =
     (let phase1 = strobePhase intensity (timeRad time);
          phase2 = strobePhase intensity (timeRad time + pi / 2);
          phase3 = strobePhase intensity (timeRad time + pi);
          phase4 = strobePhase intensity (timeRad time + 3 * pi / 2)
      in s\<lparr>ledc0 := phase1, ledc1 := phase2, ledc2 := phase3, ledc3 := phase4\<rparr>)"

definition setAudioDeterrent :: "bool \<Rightarrow> ulong \<Rightarrow> Controller \<Rightarrow> Controller" where
  "setAudioDeterrent enable now s =
     (if enable
      then s\<lparr>audioEnable := enable,
             audioTone := c_trunc (2000 + sin (real (unat now) * 0.01) * 500)\<rparr>
      else s\<lparr>audioEnable := enable, audioTone := 0\<rparr>)"

definition controlDeterrents :: "ulong \<Rightarrow> ulong \<Rightarrow> ulong \<Rightarrow> Controller \<Rightarrow> Controller" where
  "controlDeterrents tStrobes tAudio tControl s =
     (case currentState s of
        STATE_STANDBY \<Rightarrow> setAudioDeterrent False tAudio (setLEDStrobes 0 tStrobes s)
      | STATE_ALERT \<Rightarrow> setAudioDeterrent False tAudio (setLEDStrobes 50 tStrobes s)
      | STATE_ACTIVE \<Rightarrow>
          (let s' = setAudioDeterrent True tAudio (setLEDStrobes 255 tStrobes s) in
           if tControl - deterrentActivationTime s' > 60000
           then s'\<lparr>currentState := STATE_ALERT\<rparr>
           else s')
      | STATE_EMERGENCY \<Rightarrow> setAudioDeterrent False tAudio (setLEDStrobes 0 tStrobes s))"

section \<open>The control loop\<close>

definition loop :: "TickInput \<Rightarrow> Controller \<Rightarrow> Controller" where
  "loop i s =
     (let s1 = (if emergencyPin i = LOW
                then s\<lparr>emergencyStop := True, currentState := STATE_EMERGENCY\<rparr>
                else s);
          s2 = checkBirdDetection (rpiLine i) (millisDetection i) s1;
          s3 = updateSystemState (millisUpdate i) s2
      in controlDeterrents (millisStrobes i) (millisAudio i) (millisControl i) s3)"

text \<open>Successive iterations of \<^verbatim>\<open>loop\<close>, one per element of the list of inputs.\<close>

fun run :: "TickInput list \<Rightarrow> Controller \<Rightarrow> Controller" where
  "run [] s = s"
| "run (i # is) s = run is (loop i s)"

section \<open>Initial state and scenario inputs\<close>

text \<open>
  The globals as their initialisers leave them (objects of static storage duration are
  zero-initialised); the PWM channels and the audio pin as \<^verbatim>\<open>initializeLEDStrobes\<close>
  and \<^verbatim>\<open>initializeAudio\<close> leave them.
\<close>

definition initialController :: Controller where
  "initialController =
     \<lparr>currentState = STATE_STANDBY, currentThreat = THREAT_NONE,
      deterrentActivationTime = 0, emergencyStop = False,
      birdData = \<lparr>detected = False, confidence = 0, distance = Finite 0,
                   bearing = Finite 0, species = 0, timestamp = 0\<rparr>,
      ledc0 = 0, ledc1 = 0, ledc2 = 0, ledc3 = 0, audioEnable = False, audioTone = 0\<rparr>"

text \<open>The detection of the specification's scenario: an eagle at 40 m, confidence 80.\<close>

definition eagleDoc :: JsonDoc where
  "eagleDoc = \<lparr>doc_detected = True, doc_confidence = 80, doc_distance = Finite 40,
               doc_bearing = Finite 0, doc_species = 1\<rparr>"

definition eagleDetection :: BirdDetection where
  "eagleDetection = \<lparr>detected = True, confidence = 80, distance = Finite 40,
                     bearing = Finite 0, species = 1, timestamp = 0\<rparr>"

text \<open>
  An iteration at clock reading \<open>t\<close> with the emergency-stop pin released: without a
  line from the Raspberry Pi, and with a line that parsed to \<open>doc\<close>.
\<close>

definition quietTick :: "ulong \<Rightarrow> TickInput" where
  "quietTick t =
     \<lparr>emergencyPin = HIGH, rpiLine = None, millisDetection = t, millisUpdate = t,
      millisStrobes = t, millisAudio = t, millisControl = t\<rparr>"

definition messageTick :: "ulong \<Rightarrow> JsonDoc \<Rightarrow> TickInput" where
  "messageTick t doc =
     \<lparr>emergencyPin = HIGH, rpiLine = Some (Ok, doc), millisDetection = t, millisUpdate = t,
      millisStrobes = t, millisAudio = t, millisControl = t\<rparr>"

text \<open>An iteration at clock reading \<open>t\<close> with the emergency-stop pin pulled low.\<close>

definition stopTick :: "ulong \<Rightarrow> TickInput" where
  "stopTick t =
     \<lparr>emergencyPin = LOW, rpiLine = None, millisDetection = t, millisUpdate = t,
      millisStrobes = t, millisAudio = t, millisControl = t\<rparr>"

text \<open>A crow at 150 m with confidence 20, and an unknown bird at 200 m with confidence 100.\<close>

definition crowDetection :: BirdDetection where
  "crowDetection = \<lparr>detected = True, confidence = 20, distance = Finite 150,
                    bearing = Finite 0, species = 3, timestamp = 0\<rparr>"

definition distantDetection :: BirdDetection where
  "distantDetection = \<lparr>detected = True, confidence = 100, distance = Finite 200,
                       bearing = Finite 0, species = 0, timestamp = 0\<rparr>"

text \<open>
  A run of iterations without emergency stop and without a line from the Raspberry Pi,
  in each of which the clock advances by at most 60 s between the reading of
  \<^verbatim>\<open>updateSystemState\<close> and the last reading of \<^verbatim>\<open>controlDeterrents\<close>.
\<close>

fun quietRun :: "TickInput list \<Rightarrow> bool" where
  "quietRun [] = True"
| "quietRun (i # is) =
     (emergencyPin i = HIGH \<and> rpiLine i = None \<and> millisControl i - millisUpdate i \<le> 60000
      \<and> quietRun is)"

section \<open>Notions of the specification\<close>

text \<open>
  The severity order of the species codes, other < crow (3) < hawk (2) < eagle (1), as a
  rank.
\<close>

definition speciesSeverity :: "int \<Rightarrow> nat" where
  "speciesSeverity c = (if c = 1 then 3 else if c = 2 then 2 else if c = 3 then 1 else 0)"

text \<open>The duties of the four strobe channels, in channel order.\<close>

definition strobeOutputs :: "Controller \<Rightarrow> int \<times> int \<times> int \<times> int" where
  "strobeOutputs s = (ledc0 s, ledc1 s, ledc2 s, ledc3 s)"

section \<open>Field lemmas\<close>

lemma setLEDStrobes_fields:
  "currentState (setLEDStrobes k t s) = currentState s"
  "currentThreat (setLEDStrobes k t s) = currentThreat s"
  "emergencyStop (setLEDStrobes k t s) = emergencyStop s"
  "deterrentActivationTime (setLEDStrobes k t s) = deterrentActivationTime s"
  "birdData (setLEDStrobes k t s) = birdData s"
  by (simp_all add: setLEDStrobes_def Let_def)

lemma setAudioDeterrent_fields:
  "currentState (setAudioDeterrent e t s) = currentState s"
  "currentThreat (setAudioDeterrent e t s) = currentThreat s"
  "emergencyStop (setAudioDeterrent e t s) = emergencyStop s"
  "deterrentActivationTime (setAudioDeterrent e t s) = deterrentActivationTime s"
  "birdData (setAudioDeterrent e t s) = birdData s"
  "ledc0 (setAudioDeterrent e t s) = ledc0 s"
  "ledc1 (setAudioDeterrent e t s) = ledc1 s"
  "ledc2 (setAudioDeterrent e t s) = ledc2 s"
  "ledc3 (setAudioDeterrent e t s) = ledc3 s"
  by (simp_all add: setAudioDeterrent_def)

lemma assessThreatLevel_fields:
  "currentState (assessThreatLevel s) = currentState s"
  "emergencyStop (assessThreatLevel s) = emergencyStop s"
  "deterrentActivationTime (assessThreatLevel s) = deterrentActivationTime s"
  "birdData (assessThreatLevel s) = birdData s"
  by (simp_all add: assessThreatLevel_def Let_def)

lemma checkBirdDetection_fields:
  "currentState (checkBirdDetection l t s) = currentState s"
  "emergencyStop (checkBirdDetection l t s) = emergencyStop s"
  "deterrentActivationTime (checkBirdDetection l t s) = deterrentActivationTime s"
  by (simp_all add: checkBirdDetection_def assessThreatLevel_fields split: option.splits prod.splits)

lemma updateSystemState_fields:
  "emergencyStop (updateSystemState t s) = emergencyStop s"
  "currentThreat (updateSystemState t s) = currentThreat s"
  "birdData (updateSystemState t s) = birdData s"
  by (simp_all add: updateSystemState_def split: ThreatLevel.splits)

lemma controlDeterrents_fields:
  "emergencyStop (controlDeterrents a b c s) = emergencyStop s"
  "currentThreat (controlDeterrents a b c s) = currentThreat s"
  "birdData (controlDeterrents a b c s) = birdData s"
  "deterrentActivationTime (controlDeterrents a b c s) = deterrentActivationTime s"
  by (simp_all add: controlDeterrents_def Let_def setAudioDeterrent_fields setLEDStrobes_fields
      split: SystemState.splits)

lemma updateSystemState_emergency:
  "emergencyStop s \<Longrightarrow> currentState (updateSystemState t s) = STATE_EMERGENCY"
  by (simp add: updateSystemState_def)

lemma controlDeterrents_emergency:
  "currentState s = STATE_EMERGENCY \<Longrightarrow> currentState (controlDeterrents a b c s) = STATE_EMERGENCY"
  by (simp add: controlDeterrents_def setAudioDeterrent_fields setLEDStrobes_fields)

lemma loop_emergencyStop:
  "emergencyStop (loop i s) = (emergencyPin i = LOW \<or> emergencyStop s)"
  by (simp add: loop_def Let_def controlDeterrents_fields updateSystemState_fields
      checkBirdDetection_fields)

lemma loop_emergency_state:
  "emergencyPin i = LOW \<or> emergencyStop s \<Longrightarrow> currentState (loop i s) = STATE_EMERGENCY"
  by (auto simp add: loop_def Let_def checkBirdDetection_fields
      intro!: controlDeterrents_emergency updateSystemState_emergency)

section \<open>Integer division and the score\<close>

lemma c_div_nonneg: "0 \<le> a \<Longrightarrow> c_div a 10 = a div 10"
  by (simp add: c_div_def sgn_if)

lemma c_div_neg: "a < 0 \<Longrightarrow> c_div a 10 = - ((- a) div 10)"
  by (simp add: c_div_def sgn_if)

lemma c_div_mono: "a \<le> b \<Longrightarrow> c_div a 10 \<le> c_div b 10"
  by (cases "0 \<le> a"; cases "0 \<le> b") (simp_all add: c_div_nonneg c_div_neg not_le, presburger+)

lemma floor_div10: "\<lfloor>real_of_int a / 10\<rfloor> = a div 10"
  by (metis floor_divide_of_int_eq of_int_numeral)

lemma threatScore_sum:
  "threatScore b =
     (if float_lt (distance b) (Finite 50) then 30
      else if float_lt (distance b) (Finite 100) then 20
      else if float_lt (distance b) (Finite 200) then 10 else 0)
     + c_div (confidence b) 10
     + (if species b = 1 then 20 else if species b = 2 then 15
        else if species b = 3 then 10 else 0)"
  by (simp add: threatScore_def Let_def)

lemma assessThreatLevel_detected:
  "detected (birdData s) \<Longrightarrow>
   currentThreat (assessThreatLevel s) =
     (if threatScore (birdData s) \<ge> 50 then THREAT_HIGH
      else if threatScore (birdData s) \<ge> 30 then THREAT_MEDIUM
      else if threatScore (birdData s) \<ge> 15 then THREAT_LOW
      else THREAT_NONE)"
  by (simp add: assessThreatLevel_def Let_def)

text \<open>
  The score never leaves the range of a 32-bit \<^verbatim>\<open>int\<close>: the additions of
  \<^verbatim>\<open>assessThreatLevel\<close> cannot overflow, and unbounded integers model them exactly.
\<close>

lemma c_div_int32:
  assumes "int32 a"
  shows "- 214748364 \<le> c_div a 10 \<and> c_div a 10 \<le> 214748364"
proof (cases "0 \<le> a")
  case True
  have "a \<le> 2147483647" using assms by (simp add: int32_def)
  then have "a div 10 \<le> 2147483647 div 10" by (rule zdiv_mono1) simp
  moreover have "0 \<le> a div 10" using True by simp
  ultimately show ?thesis using True by (simp add: c_div_nonneg)
next
  case False
  have "- a \<le> 2147483648" using assms by (simp add: int32_def)
  then have "(- a) div 10 \<le> 2147483648 div 10" by (rule zdiv_mono1) simp
  moreover have "0 \<le> (- a) div 10" using False by simp
  ultimately show ?thesis using False by (simp add: c_div_neg)
qed

lemma threatScore_int32: "int32 (confidence b) \<Longrightarrow> int32 (threatScore b)"
  using c_div_int32 [of "confidence b"] by (simp add: threatScore_sum int32_def)

lemma score_mono:
  assumes "distance b2 = distance b1 \<or> float_le (distance b2) (distance b1)"
    and "confidence b1 \<le> confidence b2"
    and "speciesSeverity (species b1) \<le> speciesSeverity (species b2)"
  shows "threatScore b1 \<le> threatScore b2"
proof -
  let ?D = "\<lambda>b. (if float_lt (distance b) (Finite 50) then 30
      else if float_lt (distance b) (Finite 100) then 20
      else if float_lt (distance b) (Finite 200) then 10 else (0::int))"
  let ?S = "\<lambda>b. (if species b = 1 then 20 else if species b = 2 then 15
        else if species b = 3 then 10 else (0::int))"
  from assms(1) have d: "?D b1 \<le> ?D b2"
  proof
    assume "distance b2 = distance b1"
    then show ?thesis by simp
  next
    assume "float_le (distance b2) (distance b1)"
    then show ?thesis
      by (auto simp add: float_lt_def float_le_def split: cfloat.splits)
  qed
  have c: "c_div (confidence b1) 10 \<le> c_div (confidence b2) 10"
    using assms(2) by (rule c_div_mono)
  have s: "?S b1 \<le> ?S b2"
    using assms(3) by (simp add: speciesSeverity_def split: if_splits)
  have "threatScore b1 = ?D b1 + c_div (confidence b1) 10 + ?S b1" by (rule threatScore_sum)
  moreover have "threatScore b2 = ?D b2 + c_div (confidence b2) 10 + ?S b2" by (rule threatScore_sum)
  ultimately show ?thesis using d c s by linarith
qed

section \<open>Strobe pattern\<close>

lemma strobePhase_zero: "strobePhase 0 x = 0"
  by (simp add: strobePhase_def c_trunc_def)

lemma setLEDStrobes_outputs:
  "ledc0 (setLEDStrobes k t s) = strobePhase k (timeRad t)"
  "ledc1 (setLEDStrobes k t s) = strobePhase k (timeRad t + pi / 2)"
  "ledc2 (setLEDStrobes k t s) = strobePhase k (timeRad t + pi)"
  "ledc3 (setLEDStrobes k t s) = strobePhase k (timeRad t + 3 * pi / 2)"
  "audioEnable (setLEDStrobes k t s) = audioEnable s"
  "audioTone (setLEDStrobes k t s) = audioTone s"
  by (simp_all add: setLEDStrobes_def Let_def)

section \<open>Deterrent control by state\<close>

lemma strobeOutputs_setAudio:
  "strobeOutputs (setAudioDeterrent e t s) = strobeOutputs s"
  by (simp add: strobeOutputs_def setAudioDeterrent_fields)

lemma strobeOutputs_state:
  "strobeOutputs (s\<lparr>currentState := st\<rparr>) = strobeOutputs s"
  by (simp add: strobeOutputs_def)

lemma strobeOutputs_setLED_state:
  "strobeOutputs (setLEDStrobes k t (s\<lparr>currentState := st\<rparr>)) = strobeOutputs (setLEDStrobes k t s)"
  by (simp add: strobeOutputs_def setLEDStrobes_outputs)

lemma setAudioDeterrent_audio:
  "audioEnable (setAudioDeterrent e t s) = e"
  "\<not> e \<Longrightarrow> audioTone (setAudioDeterrent e t s) = 0"
  by (simp_all add: setAudioDeterrent_def)

lemma controlDeterrents_standby:
  "currentState s = STATE_STANDBY \<Longrightarrow>
   controlDeterrents ts ta tc s = setAudioDeterrent False ta (setLEDStrobes 0 ts s)"
  by (simp add: controlDeterrents_def)

lemma controlDeterrents_alert:
  "currentState s = STATE_ALERT \<Longrightarrow>
   controlDeterrents ts ta tc s = setAudioDeterrent False ta (setLEDStrobes 50 ts s)"
  by (simp add: controlDeterrents_def)

lemma controlDeterrents_emergency_eq:
  "currentState s = STATE_EMERGENCY \<Longrightarrow>
   controlDeterrents ts ta tc s = setAudioDeterrent False ta (setLEDStrobes 0 ts s)"
  by (simp add: controlDeterrents_def)

lemma controlDeterrents_active:
  "currentState s = STATE_ACTIVE \<Longrightarrow>
   controlDeterrents ts ta tc s =
     (if tc - deterrentActivationTime s > 60000
      then (setAudioDeterrent True ta (setLEDStrobes 255 ts s))\<lparr>currentState := STATE_ALERT\<rparr>
      else setAudioDeterrent True ta (setLEDStrobes 255 ts s))"
  by (simp add: controlDeterrents_def Let_def setAudioDeterrent_fields setLEDStrobes_fields)

section \<open>Runs of the loop\<close>

lemma run_emergency:
  "emergencyStop s \<Longrightarrow>
   emergencyStop (run js s) \<and> (js \<noteq> [] \<longrightarrow> currentState (run js s) = STATE_EMERGENCY)"
proof (induction js arbitrary: s)
  case Nil
  then show ?case by simp
next
  case (Cons j js)
  have e: "emergencyStop (loop j s)" using Cons.prems by (simp add: loop_emergencyStop)
  have c: "currentState (loop j s) = STATE_EMERGENCY"
    using Cons.prems by (simp add: loop_emergency_state)
  show ?case
  proof (cases js)
    case Nil
    with e c show ?thesis by simp
  next
    case (Cons a list)
    with Cons.IH [OF e] show ?thesis by simp
  qed
qed

text \<open>
  Taken alone, \<^verbatim>\<open>controlDeterrents\<close> demotes the active state once more than 60 s
  have passed since the stamp.
\<close>

lemma controlDeterrents_timeout:
  "currentState s = STATE_ACTIVE \<Longrightarrow> tc - deterrentActivationTime s > 60000 \<Longrightarrow>
   currentState (controlDeterrents ts ta tc s) = STATE_ALERT"
  by (simp add: controlDeterrents_active)

text \<open>
  \<^verbatim>\<open>updateSystemState\<close> runs before it in every iteration, and on a medium or high
  threat it assigns the stamp anew, whether or not the threat value is a new one.
\<close>

lemma updateSystemState_restamps:
  assumes "\<not> emergencyStop s"
    and "currentThreat s = THREAT_MEDIUM \<or> currentThreat s = THREAT_HIGH"
  shows "currentState (updateSystemState now s) = STATE_ACTIVE"
    and "deterrentActivationTime (updateSystemState now s) = now"
  using assms by (auto simp add: updateSystemState_def)

lemma loop_quiet_threat:
  "rpiLine i = None \<Longrightarrow> currentThreat (loop i s) = currentThreat s"
  by (simp add: loop_def Let_def controlDeterrents_fields updateSystemState_fields
      checkBirdDetection_def)

lemma loop_stale_threat_restamps:
  assumes "emergencyPin i = HIGH" and "rpiLine i = None"
    and "\<not> emergencyStop s"
    and "currentThreat s = THREAT_MEDIUM \<or> currentThreat s = THREAT_HIGH"
    and "millisControl i - millisUpdate i \<le> 60000"
  shows "currentState (loop i s) = STATE_ACTIVE \<and> deterrentActivationTime (loop i s) = millisUpdate i"
proof -
  let ?u = "updateSystemState (millisUpdate i) s"
  have l: "loop i s = controlDeterrents (millisStrobes i) (millisAudio i) (millisControl i) ?u"
    using assms(1,2) by (simp add: loop_def Let_def checkBirdDetection_def)
  have a: "currentState ?u = STATE_ACTIVE" and d: "deterrentActivationTime ?u = millisUpdate i"
    using assms(3,4) by (rule updateSystemState_restamps)+
  have "\<not> millisControl i - deterrentActivationTime ?u > 60000"
    using assms(5) d by (simp add: not_less)
  then show ?thesis
    using a d by (simp add: l controlDeterrents_active setAudioDeterrent_fields setLEDStrobes_fields)
qed

text \<open>
  Hence a medium or high threat that no new detection replaces keeps the state active
  for as long as the loop runs, however much time passes.
\<close>

lemma run_stale_threat_stays_active:
  assumes "quietRun js" and "js \<noteq> []"
    and "\<not> emergencyStop s"
    and "currentThreat s = THREAT_MEDIUM \<or> currentThreat s = THREAT_HIGH"
  shows "currentState (run js s) = STATE_ACTIVE
       \<and> deterrentActivationTime (run js s) = millisUpdate (last js)"
  using assms
proof (induction js arbitrary: s)
  case Nil
  then show ?case by simp
next
  case (Cons j js)
  have q: "emergencyPin j = HIGH" "rpiLine j = None" "millisControl j - millisUpdate j \<le> 60000"
    using Cons.prems(1) by simp_all
  have st: "currentState (loop j s) = STATE_ACTIVE \<and> deterrentActivationTime (loop j s) = millisUpdate j"
    using q(1,2) Cons.prems(3,4) q(3) by (rule loop_stale_threat_restamps)
  show ?case
  proof (cases js)
    case Nil
    with st show ?thesis by simp
  next
    case (Cons a list)
    have e: "\<not> emergencyStop (loop j s)"
      using q(1) Cons.prems(3) by (simp add: loop_emergencyStop)
    have t: "currentThreat (loop j s) = THREAT_MEDIUM \<or> currentThreat (loop j s) = THREAT_HIGH"
      using q(2) Cons.prems(4) by (simp add: loop_quiet_threat)
    have "quietRun js" using Cons.prems(1) by simp
    moreover have "js \<noteq> []" using Cons by simp
    ultimately have "currentState (run js (loop j s)) = STATE_ACTIVE
       \<and> deterrentActivationTime (run js (loop j s)) = millisUpdate (last js)"
      using e t by (rule Cons.IH)
    then show ?thesis using Cons by simp
  qed
qed

lemma loop_eagle:
  "currentState (loop (messageTick 1000 eagleDoc) initialController) = STATE_ACTIVE"
  "currentThreat (loop (messageTick 1000 eagleDoc) initialController) = THREAT_HIGH"
  "deterrentActivationTime (loop (messageTick 1000 eagleDoc) initialController) = 1000"
  "emergencyStop (loop (messageTick 1000 eagleDoc) initialController) = False"
  by (simp_all add: loop_def Let_def messageTick_def initialController_def eagleDoc_def
      checkBirdDetection_def assessThreatLevel_def threatScore_sum float_lt_def c_div_nonneg
      updateSystemState_def controlDeterrents_def setAudioDeterrent_fields setLEDStrobes_fields)

lemma quietTick_fields:
  "emergencyPin (quietTick t) = HIGH" "rpiLine (quietTick t) = None"
  "millisUpdate (quietTick t) = t" "millisControl (quietTick t) = t"
  by (simp_all add: quietTick_def)

lemma quietRun_quietTicks: "quietRun (map quietTick ts)"
  by (induction ts) (simp_all add: quietTick_fields)

text \<open>
  After the eagle reported at 1 s, the state is active at the end of every later iteration
  without a new detection, at whatever clock readings \<open>t # ts\<close> they run.
\<close>

lemma eagle_never_times_out:
  "currentState (run (map quietTick (t # ts)) (loop (messageTick 1000 eagleDoc) initialController))
     = STATE_ACTIVE"
proof -
  have "currentState (run (map quietTick (t # ts)) (loop (messageTick 1000 eagleDoc) initialController))
       = STATE_ACTIVE
     \<and> deterrentActivationTime
         (run (map quietTick (t # ts)) (loop (messageTick 1000 eagleDoc) initialController))
       = millisUpdate (last (map quietTick (t # ts)))"
    by (rule run_stale_threat_stays_active) (simp_all add: quietRun_quietTicks quietTick_fields loop_eagle)
  then show ?thesis by simp
qed

section \<open>Claims\<close>

text \<open>
  C1. The 60 s timeout of the active state does not fire while a medium or high threat
  value stands, new or stale. An eagle reported at 1 s makes the state active with the
  stamp at 1 s. The iteration at 70 s receives no new detection and starts in the active
  state with a high threat, 69 s after the stamp; it ends in the active state still, with
  the stamp moved to 70 s: \<^verbatim>\<open>updateSystemState\<close> has assigned the stamp again before
  \<^verbatim>\<open>controlDeterrents\<close> compares it with the clock.
\<close>

theorem C1_stale_threat_rearms_timeout:
  "currentState (loop (messageTick 1000 eagleDoc) initialController) = STATE_ACTIVE
   \<and> currentThreat (loop (messageTick 1000 eagleDoc) initialController) = THREAT_HIGH
   \<and> deterrentActivationTime (loop (messageTick 1000 eagleDoc) initialController) = 1000
   \<and> rpiLine (quietTick 70000) = None
   \<and> millisControl (quietTick 70000)
        - deterrentActivationTime (loop (messageTick 1000 eagleDoc) initialController) > 60000
   \<and> currentState (loop (quietTick 70000) (loop (messageTick 1000 eagleDoc) initialController))
        = STATE_ACTIVE
   \<and> deterrentActivationTime (loop (quietTick 70000) (loop (messageTick 1000 eagleDoc) initialController))
        = 70000"
proof -
  have q: "emergencyPin (quietTick 70000) = HIGH" "rpiLine (quietTick 70000) = None"
    "millisControl (quietTick 70000) - millisUpdate (quietTick 70000) \<le> 60000"
    "millisUpdate (quietTick 70000) = 70000" "millisControl (quietTick 70000) = 70000"
    by (simp_all add: quietTick_def)
  have "currentState (loop (quietTick 70000) (loop (messageTick 1000 eagleDoc) initialController))
        = STATE_ACTIVE
   \<and> deterrentActivationTime (loop (quietTick 70000) (loop (messageTick 1000 eagleDoc) initialController))
        = millisUpdate (quietTick 70000)"
    using q(1,2) by (rule loop_stale_threat_restamps) (simp_all add: loop_eagle q)
  then show ?thesis by (simp add: loop_eagle q)
qed

text \<open>
  C2. Whatever the current state, the threat level and the activation stamp are, the
  state transition yields the emergency state when the emergency flag is set; and an
  iteration of the loop that reads the emergency-stop pin low ends in the emergency
  state, whatever else it reads.
\<close>

theorem C2_emergency_preempts:
  "currentState (updateSystemState now
       (s\<lparr>currentState := st, currentThreat := th, deterrentActivationTime := act,
          emergencyStop := True\<rparr>)) = STATE_EMERGENCY
   \<and> currentState (loop (i\<lparr>emergencyPin := LOW\<rparr>) s) = STATE_EMERGENCY"
  by (simp add: updateSystemState_emergency loop_emergency_state)

text \<open>
  C3. A detection whose \<open>detected\<close> field is false is assessed as no threat, whatever
  its confidence, distance, bearing and species are; so is a parsed message whose
  \<open>detected\<close> value is false.
\<close>

theorem C3_not_detected_none:
  "currentThreat (assessThreatLevel (s\<lparr>birdData := b\<lparr>detected := False\<rparr>\<rparr>)) = THREAT_NONE
   \<and> currentThreat (checkBirdDetection (Some (Ok, d\<lparr>doc_detected := False\<rparr>)) now s) = THREAT_NONE"
  by (simp add: assessThreatLevel_def checkBirdDetection_def)

text \<open>
  C4. For a detection with \<open>detected\<close> true and a confidence that is not negative (the
  specification's confidence is an integer from 0 to 100), the score is the sum of the
  distance contribution (30 below 50 m, else 20 below 100 m, else 10 below 200 m, else 0),
  of \<open>\<lfloor>confidence / 10\<rfloor>\<close> and of the species contribution (20 for code 1, the eagle, 15
  for code 2, the hawk, 10 for code 3, the crow, else 0); the level is high from 50,
  medium from 30, low from 15 and none below. The eagle at 40 m with confidence 80 scores
  58 and is a high threat.
\<close>

theorem C4_score_and_level:
  "(detected (birdData s) \<and> 0 \<le> confidence (birdData s) \<longrightarrow>
      threatScore (birdData s) =
           (if float_lt (distance (birdData s)) (Finite 50) then 30
            else if float_lt (distance (birdData s)) (Finite 100) then 20
            else if float_lt (distance (birdData s)) (Finite 200) then 10 else 0)
           + \<lfloor>real_of_int (confidence (birdData s)) / 10\<rfloor>
           + (if species (birdData s) = 1 then 20
              else if species (birdData s) = 2 then 15
              else if species (birdData s) = 3 then 10 else 0)
       \<and> currentThreat (assessThreatLevel s) =
           (if threatScore (birdData s) \<ge> 50 then THREAT_HIGH
            else if threatScore (birdData s) \<ge> 30 then THREAT_MEDIUM
            else if threatScore (birdData s) \<ge> 15 then THREAT_LOW
            else THREAT_NONE))
   \<and> threatScore \<lparr>detected = True, confidence = 80, distance = Finite 40, bearing = br,
                   species = 1, timestamp = ts\<rparr> = 58
   \<and> currentThreat (assessThreatLevel
        (s\<lparr>birdData := \<lparr>detected = True, confidence = 80, distance = Finite 40, bearing = br,
                          species = 1, timestamp = ts\<rparr>\<rparr>)) = THREAT_HIGH"
proof (intro conjI impI)
  assume a: "detected (birdData s) \<and> 0 \<le> confidence (birdData s)"
  then have "c_div (confidence (birdData s)) 10 = \<lfloor>real_of_int (confidence (birdData s)) / 10\<rfloor>"
    by (simp only: c_div_nonneg floor_div10)
  then show "threatScore (birdData s) =
           (if float_lt (distance (birdData s)) (Finite 50) then 30
            else if float_lt (distance (birdData s)) (Finite 100) then 20
            else if float_lt (distance (birdData s)) (Finite 200) then 10 else 0)
           + \<lfloor>real_of_int (confidence (birdData s)) / 10\<rfloor>
           + (if species (birdData s) = 1 then 20
              else if species (birdData s) = 2 then 15
              else if species (birdData s) = 3 then 10 else 0)"
    by (simp only: threatScore_sum)
  from a show "currentThreat (assessThreatLevel s) =
           (if threatScore (birdData s) \<ge> 50 then THREAT_HIGH
            else if threatScore (birdData s) \<ge> 30 then THREAT_MEDIUM
            else if threatScore (birdData s) \<ge> 15 then THREAT_LOW
            else THREAT_NONE)"
    by (simp add: assessThreatLevel_detected)
next
  show sc: "threatScore \<lparr>detected = True, confidence = 80, distance = Finite 40, bearing = br,
                   species = 1, timestamp = ts\<rparr> = 58"
    by (simp add: threatScore_sum float_lt_def c_div_nonneg)
  show "currentThreat (assessThreatLevel
        (s\<lparr>birdData := \<lparr>detected = True, confidence = 80, distance = Finite 40, bearing = br,
                          species = 1, timestamp = ts\<rparr>\<rparr>)) = THREAT_HIGH"
    by (simp add: assessThreatLevel_detected sc)
qed

theorem C4_score_and_level_witness:
  "detected (birdData (initialController\<lparr>birdData := eagleDetection\<rparr>))
   \<and> 0 \<le> confidence (birdData (initialController\<lparr>birdData := eagleDetection\<rparr>))
   \<and> threatScore eagleDetection = 30 + 8 + 20
   \<and> currentThreat (assessThreatLevel (initialController\<lparr>birdData := eagleDetection\<rparr>)) = THREAT_HIGH"
  using C4_score_and_level [of "initialController\<lparr>birdData := eagleDetection\<rparr>"]
  by (simp add: eagleDetection_def float_lt_def)

text \<open>
  C5. Of two detections with \<open>detected\<close> true, the one that is at the same distance or
  nearer, at least as confident and of at least as severe a species (other < crow < hawk <
  eagle) has at least the score and at least the threat level of the other. Two detections
  that differ in one factor only are the special case in which the other two factors are
  equal.
\<close>

theorem C5_score_monotone:
  assumes "detected (birdData s1)" and "detected (birdData s2)"
    and "distance (birdData s2) = distance (birdData s1)
         \<or> float_le (distance (birdData s2)) (distance (birdData s1))"
    and "confidence (birdData s1) \<le> confidence (birdData s2)"
    and "speciesSeverity (species (birdData s1)) \<le> speciesSeverity (species (birdData s2))"
  shows "threatScore (birdData s1) \<le> threatScore (birdData s2)
    \<and> threatOrdinal (currentThreat (assessThreatLevel s1))
        \<le> threatOrdinal (currentThreat (assessThreatLevel s2))"
proof -
  have m: "threatScore (birdData s1) \<le> threatScore (birdData s2)"
    using assms(3,4,5) by (rule score_mono)
  then have "threatOrdinal (currentThreat (assessThreatLevel s1))
        \<le> threatOrdinal (currentThreat (assessThreatLevel s2))"
    using assms(1,2) by (simp add: assessThreatLevel_detected)
  with m show ?thesis by simp
qed

theorem C5_score_monotone_witness:
  "detected (birdData (initialController\<lparr>birdData := crowDetection\<rparr>))
   \<and> detected (birdData (initialController\<lparr>birdData := eagleDetection\<rparr>))
   \<and> float_le (distance (birdData (initialController\<lparr>birdData := eagleDetection\<rparr>)))
        (distance (birdData (initialController\<lparr>birdData := crowDetection\<rparr>)))
   \<and> confidence (birdData (initialController\<lparr>birdData := crowDetection\<rparr>))
        \<le> confidence (birdData (initialController\<lparr>birdData := eagleDetection\<rparr>))
   \<and> speciesSeverity (species (birdData (initialController\<lparr>birdData := crowDetection\<rparr>)))
        \<le> speciesSeverity (species (birdData (initialController\<lparr>birdData := eagleDetection\<rparr>)))
   \<and> threatScore crowDetection \<le> threatScore eagleDetection
   \<and> threatOrdinal (currentThreat (assessThreatLevel (initialController\<lparr>birdData := crowDetection\<rparr>)))
        \<le> threatOrdinal (currentThreat (assessThreatLevel (initialController\<lparr>birdData := eagleDetection\<rparr>)))"
proof -
  have h: "detected (birdData (initialController\<lparr>birdData := crowDetection\<rparr>))"
    "detected (birdData (initialController\<lparr>birdData := eagleDetection\<rparr>))"
    "float_le (distance (birdData (initialController\<lparr>birdData := eagleDetection\<rparr>)))
        (distance (birdData (initialController\<lparr>birdData := crowDetection\<rparr>)))"
    "confidence (birdData (initialController\<lparr>birdData := crowDetection\<rparr>))
        \<le> confidence (birdData (initialController\<lparr>birdData := eagleDetection\<rparr>))"
    "speciesSeverity (species (birdData (initialController\<lparr>birdData := crowDetection\<rparr>)))
        \<le> speciesSeverity (species (birdData (initialController\<lparr>birdData := eagleDetection\<rparr>)))"
    by (simp_all add: crowDetection_def eagleDetection_def float_le_def speciesSeverity_def)
  from C5_score_monotone [OF h(1) h(2) disjI2 [OF h(3)] h(4) h(5)] h show ?thesis by simp
qed

text \<open>
  C6. Whatever the clock reads, the deterrent control drives the strobes with the pattern
  of base intensity 0 in standby, 50 in alert, 255 in the active state and 0 in the
  emergency state, and enables the audio deterrent in the active state only; in standby
  all four strobe channels are at 0, and the audio is disabled and silent.
\<close>

theorem C6_state_to_deterrents:
  "strobeOutputs (controlDeterrents ts ta tc (s\<lparr>currentState := STATE_STANDBY\<rparr>))
      = strobeOutputs (setLEDStrobes 0 ts s)
   \<and> audioEnable (controlDeterrents ts ta tc (s\<lparr>currentState := STATE_STANDBY\<rparr>)) = False
   \<and> strobeOutputs (controlDeterrents ts ta tc (s\<lparr>currentState := STATE_ALERT\<rparr>))
      = strobeOutputs (setLEDStrobes 50 ts s)
   \<and> audioEnable (controlDeterrents ts ta tc (s\<lparr>currentState := STATE_ALERT\<rparr>)) = False
   \<and> strobeOutputs (controlDeterrents ts ta tc (s\<lparr>currentState := STATE_ACTIVE\<rparr>))
      = strobeOutputs (setLEDStrobes 255 ts s)
   \<and> audioEnable (controlDeterrents ts ta tc (s\<lparr>currentState := STATE_ACTIVE\<rparr>)) = True
   \<and> strobeOutputs (controlDeterrents ts ta tc (s\<lparr>currentState := STATE_EMERGENCY\<rparr>))
      = strobeOutputs (setLEDStrobes 0 ts s)
   \<and> audioEnable (controlDeterrents ts ta tc (s\<lparr>currentState := STATE_EMERGENCY\<rparr>)) = False
   \<and> strobeOutputs (controlDeterrents ts ta tc (s\<lparr>currentState := STATE_STANDBY\<rparr>)) = (0, 0, 0, 0)
   \<and> audioTone (controlDeterrents ts ta tc (s\<lparr>currentState := STATE_STANDBY\<rparr>)) = 0"
proof -
  have z: "strobeOutputs (setLEDStrobes 0 ts s) = (0, 0, 0, 0)"
    by (simp add: strobeOutputs_def setLEDStrobes_outputs strobePhase_zero)
  have sb: "strobeOutputs (controlDeterrents ts ta tc (s\<lparr>currentState := STATE_STANDBY\<rparr>))
      = strobeOutputs (setLEDStrobes 0 ts s)"
    "audioEnable (controlDeterrents ts ta tc (s\<lparr>currentState := STATE_STANDBY\<rparr>)) = False"
    "audioTone (controlDeterrents ts ta tc (s\<lparr>currentState := STATE_STANDBY\<rparr>)) = 0"
    by (simp_all add: controlDeterrents_standby strobeOutputs_setAudio strobeOutputs_setLED_state
        setAudioDeterrent_audio)
  have al: "strobeOutputs (controlDeterrents ts ta tc (s\<lparr>currentState := STATE_ALERT\<rparr>))
      = strobeOutputs (setLEDStrobes 50 ts s)"
    "audioEnable (controlDeterrents ts ta tc (s\<lparr>currentState := STATE_ALERT\<rparr>)) = False"
    by (simp_all add: controlDeterrents_alert strobeOutputs_setAudio strobeOutputs_setLED_state
        setAudioDeterrent_audio)
  have ac: "strobeOutputs (controlDeterrents ts ta tc (s\<lparr>currentState := STATE_ACTIVE\<rparr>))
      = strobeOutputs (setLEDStrobes 255 ts s)"
    "audioEnable (controlDeterrents ts ta tc (s\<lparr>currentState := STATE_ACTIVE\<rparr>)) = True"
    by (simp_all add: controlDeterrents_active strobeOutputs_setAudio strobeOutputs_setLED_state
        strobeOutputs_state setAudioDeterrent_audio)
  have em: "strobeOutputs (controlDeterrents ts ta tc (s\<lparr>currentState := STATE_EMERGENCY\<rparr>))
      = strobeOutputs (setLEDStrobes 0 ts s)"
    "audioEnable (controlDeterrents ts ta tc (s\<lparr>currentState := STATE_EMERGENCY\<rparr>)) = False"
    by (simp_all add: controlDeterrents_emergency_eq strobeOutputs_setAudio strobeOutputs_setLED_state
        setAudioDeterrent_audio)
  show ?thesis
    by (simp only: sb al ac em z simp_thms)
qed

text \<open>
  C8. A line whose parse reports an error leaves the whole state as it was: the stored
  detection, the threat level and the operating state are unchanged by the polling step.
\<close>

theorem C8_decode_error_no_change:
  "error \<noteq> Ok \<Longrightarrow> checkBirdDetection (Some (error, doc)) now s = s"
  by (simp add: checkBirdDetection_def)

theorem C8_decode_error_no_change_witness:
  "InvalidInput \<noteq> Ok
   \<and> checkBirdDetection (Some (InvalidInput, eagleDoc)) 1000 initialController = initialController"
  using C8_decode_error_no_change [of InvalidInput eagleDoc 1000 initialController] by simp

text \<open>
  C9. An iteration that reads the emergency-stop pin low sets the emergency flag and ends
  in the emergency state, and so does every later iteration, whatever the pin and the
  Raspberry Pi deliver then. Once the flag is set, every iteration ends with the flag set
  and in the emergency state, and none of the functions of the controller clears the
  flag.
\<close>

theorem C9_emergency_latched:
  "(emergencyPin i = LOW \<longrightarrow>
      emergencyStop (loop i s) \<and> currentState (loop i s) = STATE_EMERGENCY
      \<and> (\<forall>js. emergencyStop (run js (loop i s))
               \<and> currentState (run js (loop i s)) = STATE_EMERGENCY))
   \<and> (emergencyStop s' \<longrightarrow>
        emergencyStop (loop j s') \<and> currentState (loop j s') = STATE_EMERGENCY
        \<and> emergencyStop (checkBirdDetection l t s')
        \<and> emergencyStop (assessThreatLevel s')
        \<and> emergencyStop (updateSystemState t s')
        \<and> emergencyStop (controlDeterrents ts ta tc s')
        \<and> emergencyStop (setLEDStrobes k t s')
        \<and> emergencyStop (setAudioDeterrent e t s'))"
proof (intro conjI impI allI)
  assume p: "emergencyPin i = LOW"
  show e: "emergencyStop (loop i s)" using p by (simp add: loop_emergencyStop)
  show c: "currentState (loop i s) = STATE_EMERGENCY" using p by (simp add: loop_emergency_state)
  fix js
  show "emergencyStop (run js (loop i s))" using run_emergency [OF e] by simp
  show "currentState (run js (loop i s)) = STATE_EMERGENCY"
    using run_emergency [OF e, of js] c by (cases js) simp_all
next
  assume f: "emergencyStop s'"
  show "emergencyStop (loop j s')" using f by (simp add: loop_emergencyStop)
  show "currentState (loop j s') = STATE_EMERGENCY" using f by (simp add: loop_emergency_state)
  show "emergencyStop (checkBirdDetection l t s')" using f by (simp add: checkBirdDetection_fields)
  show "emergencyStop (assessThreatLevel s')" using f by (simp add: assessThreatLevel_fields)
  show "emergencyStop (updateSystemState t s')" using f by (simp add: updateSystemState_fields)
  show "emergencyStop (controlDeterrents ts ta tc s')" using f by (simp add: controlDeterrents_fields)
  show "emergencyStop (setLEDStrobes k t s')" using f by (simp add: setLEDStrobes_fields)
  show "emergencyStop (setAudioDeterrent e t s')" using f by (simp add: setAudioDeterrent_fields)
qed

text \<open>
  The pin is low at 1 s and released afterwards; an eagle is reported at 2 s. The threat
  becomes high, the state stays the emergency state.
\<close>

theorem C9_emergency_latched_witness:
  "emergencyPin (stopTick 1000) = LOW
   \<and> emergencyStop (loop (stopTick 1000) initialController)
   \<and> currentState (loop (stopTick 1000) initialController) = STATE_EMERGENCY
   \<and> emergencyPin (messageTick 2000 eagleDoc) = HIGH
   \<and> currentThreat (run [messageTick 2000 eagleDoc, quietTick 3000]
        (loop (stopTick 1000) initialController)) = THREAT_HIGH
   \<and> emergencyStop (run [messageTick 2000 eagleDoc, quietTick 3000]
        (loop (stopTick 1000) initialController))
   \<and> currentState (run [messageTick 2000 eagleDoc, quietTick 3000]
        (loop (stopTick 1000) initialController)) = STATE_EMERGENCY
   \<and> currentState (loop (messageTick 2000 eagleDoc) (loop (stopTick 1000) initialController))
        = STATE_EMERGENCY"
proof -
  have p: "emergencyPin (stopTick 1000) = LOW" by (simp add: stopTick_def)
  have q: "emergencyPin (messageTick 2000 eagleDoc) = HIGH" by (simp add: messageTick_def)
  have th: "currentThreat (run [messageTick 2000 eagleDoc, quietTick 3000]
        (loop (stopTick 1000) initialController)) = THREAT_HIGH"
    by (simp add: loop_def Let_def controlDeterrents_fields updateSystemState_fields
        messageTick_def quietTick_def stopTick_def checkBirdDetection_def eagleDoc_def
        assessThreatLevel_def threatScore_sum float_lt_def c_div_nonneg)
  note c9 = C9_emergency_latched [where i = "stopTick 1000" and s = initialController
      and s' = "loop (stopTick 1000) initialController" and j = "messageTick 2000 eagleDoc"]
  from c9 p
  have a: "emergencyStop (loop (stopTick 1000) initialController)
      \<and> currentState (loop (stopTick 1000) initialController) = STATE_EMERGENCY
      \<and> (\<forall>js. emergencyStop (run js (loop (stopTick 1000) initialController))
               \<and> currentState (run js (loop (stopTick 1000) initialController)) = STATE_EMERGENCY)"
    by blast
  with c9
  have b: "currentState (loop (messageTick 2000 eagleDoc) (loop (stopTick 1000) initialController))
        = STATE_EMERGENCY"
    by blast
  from a b p q th show ?thesis by blast
qed

text \<open>
  C10. A detected bird at 200 m or more, of a species code other than 1, 2 and 3 and with
  a confidence between 0 and 100, is assessed as no threat.
\<close>

theorem C10_distant_other_none:
  assumes "detected (birdData s)"
    and "float_le (Finite 200) (distance (birdData s))"
    and "species (birdData s) \<notin> {1, 2, 3}"
    and "0 \<le> confidence (birdData s)" and "confidence (birdData s) \<le> 100"
  shows "currentThreat (assessThreatLevel s) = THREAT_NONE"
proof -
  have d: "\<not> float_lt (distance (birdData s)) (Finite 50)"
      "\<not> float_lt (distance (birdData s)) (Finite 100)"
      "\<not> float_lt (distance (birdData s)) (Finite 200)"
    using assms(2) by (simp_all add: float_lt_def float_le_def split: cfloat.splits)
  have c: "c_div (confidence (birdData s)) 10 \<le> 10"
    using assms(4,5) by (simp add: c_div_nonneg)
  have "threatScore (birdData s) = c_div (confidence (birdData s)) 10"
    using d assms(3) by (simp add: threatScore_sum)
  with c have "threatScore (birdData s) < 15" by simp
  with assms(1) show ?thesis by (simp add: assessThreatLevel_detected)
qed

theorem C10_distant_other_none_witness:
  "detected (birdData (initialController\<lparr>birdData := distantDetection\<rparr>))
   \<and> float_le (Finite 200) (distance (birdData (initialController\<lparr>birdData := distantDetection\<rparr>)))
   \<and> species (birdData (initialController\<lparr>birdData := distantDetection\<rparr>)) \<notin> {1, 2, 3}
   \<and> 0 \<le> confidence (birdData (initialController\<lparr>birdData := distantDetection\<rparr>))
   \<and> confidence (birdData (initialController\<lparr>birdData := distantDetection\<rparr>)) \<le> 100
   \<and> currentThreat (assessThreatLevel (initialController\<lparr>birdData := distantDetection\<rparr>)) = THREAT_NONE"
  using C10_distant_other_none [of "initialController\<lparr>birdData := distantDetection\<rparr>"]
  by (simp add: distantDetection_def float_le_def)

end
